theory Spec2Isabelle
  imports
    Complex_Main
    "HOL-Library.Char_ord"
    "HOL-Library.List_Lexorder"
    "HOL-Library.Sublist"
begin

section \<open>The help command of the CLI: \<^verbatim>\<open>command/common/help_command.go\<close>\<close>

text \<open>
  Go strings are byte sequences and \<^verbatim>\<open>len\<close> counts bytes, so a Go string is a
  \<^typ>\<open>string\<close> (a list of 8-bit characters) and \<^verbatim>\<open>len\<close> is \<^const>\<open>length\<close>.
  Go's \<^verbatim>\<open>int\<close> is 64 bits wide; every integer computed below is bounded by the length
  of a slice or a string held in memory, so no operation wraps and lengths are
  \<^typ>\<open>nat\<close>, differences that may be negative are \<^typ>\<open>int\<close>.
\<close>

subsection \<open>Data model\<close>

text \<open>
  The struct types come from the packages \<^verbatim>\<open>sharedaction\<close> and \<^verbatim>\<open>configv3\<close>; the
  fields are the ones the help command reads, and for a plugin command also the alias,
  which the conversion into a \<^verbatim>\<open>CommandInfo\<close> may read.
\<close>

record CommandFlag =
  Short :: string
  Long :: string
  Description :: string

record EnvironmentVariable =
  Name :: string
  DefaultValue :: string
  Description :: string

record CommandInfo =
  Name :: string
  Description :: string
  Alias :: string
  Usage :: string
  Flags :: "CommandFlag list"
  Environment :: "EnvironmentVariable list"
  RelatedCommands :: "string list"

record PluginCommand =
  Name :: string
  Alias :: string
  HelpText :: string

record PluginConfig =
  Commands :: "PluginCommand list"

record HelpCategory =
  CategoryName :: string
  CommandList :: "string list list"

text \<open>
  A Go \<^verbatim>\<open>error\<close> is an interface value. \<^verbatim>\<open>sharedaction.ErrorInvalidCommand\<close> is the
  struct that names the command that was not found; every error of another dynamic type
  is an \<open>OtherError\<close>, told apart by its message.
\<close>

datatype error = ErrorInvalidCommand string | OtherError string

text \<open>The zero value \<^verbatim>\<open>sharedaction.CommandInfo{}\<close>.\<close>

definition CommandInfo_zero :: CommandInfo where
  "CommandInfo_zero =
     \<lparr>CommandInfo.Name = [], Description = [], Alias = [], Usage = [], Flags = [],
      Environment = [], RelatedCommands = []\<rparr>"

text \<open>The zero value \<^verbatim>\<open>sharedaction.ErrorInvalidCommand{}\<close>.\<close>

definition ErrorInvalidCommand_zero :: error where
  "ErrorInvalidCommand_zero = ErrorInvalidCommand []"

subsection \<open>Collaborators\<close>

text \<open>
  The \<^verbatim>\<open>HelpActor\<close> interface. The first argument of both methods is always the static
  command list \<^verbatim>\<open>Commands\<close> and is left out. A Go map is an association list with
  distinct keys, in the order in which one \<^verbatim>\<open>range\<close> over it happens to visit the keys;
  \<open>map_of\<close> is the lookup.
\<close>

record HelpActor =
  CommandInfoByName :: "string \<Rightarrow> error + CommandInfo"
  CommandInfos :: "(string \<times> CommandInfo) list"

record Config =
  Plugins :: "(string \<times> PluginConfig) list"
  BinaryName :: string
  BinaryVersion :: string

text \<open>
  Of \<^verbatim>\<open>command.UI\<close> the translation function is a field; the four display methods are
  the calls recorded in the trace of a run.
\<close>

record UI =
  TranslateText :: "string \<Rightarrow> string"

datatype ui_call =
    DisplayHeader string
  | DisplayText string "(string \<times> string) list"
  | DisplayNewline
  | DisplayTable string "string list list" nat

record OptionalArgs =
  CommandName :: string

record HelpCommand =
  UI :: UI
  Actor :: HelpActor
  Config :: Config
  OptionalArgs :: OptionalArgs
  AllCommands :: bool

text \<open>
  What the file takes from packages whose source is not part of it: the two category
  tables and the plugin conversion of package \<^verbatim>\<open>internal\<close>, and the rune count by which
  \<^verbatim>\<open>fmt\<close> measures a field width.
\<close>

record Deps =
  HelpCategoryList :: "HelpCategory list"
  CommonHelpCategoryList :: "HelpCategory list"
  ConvertPluginToCommandInfo :: "PluginCommand \<Rightarrow> CommandInfo"
  RuneCountInString :: "string \<Rightarrow> nat"

definition commonCommandsIndent :: string where "commonCommandsIndent = ''  ''"
definition allCommandsIndent :: string where "allCommandsIndent = ''   ''"
definition commandIndent :: string where "commandIndent = ''   ''"

subsection \<open>Sorting\<close>

text \<open>
  \<^verbatim>\<open>sort.Sort\<close> orders a slice by the \<^verbatim>\<open>Less\<close> method of its type. The standard library
  promises a sorted permutation; the model is insertion sort driven by the comparison \<open>lt\<close>.
\<close>

fun insert_by :: "('a \<Rightarrow> 'a \<Rightarrow> bool) \<Rightarrow> 'a \<Rightarrow> 'a list \<Rightarrow> 'a list" where
  "insert_by lt x [] = [x]"
| "insert_by lt x (y # ys) = (if lt y x then y # insert_by lt x ys else x # y # ys)"

definition sort_Sort :: "('a \<Rightarrow> 'a \<Rightarrow> bool) \<Rightarrow> 'a list \<Rightarrow> 'a list" where
  "sort_Sort lt xs = foldr (insert_by lt) xs []"

text \<open>
  Modelled from the spec: the method \<^verbatim>\<open>Less\<close> of \<^verbatim>\<open>sorting.Alphabetic\<close>, which is not
  among the sources. The spec: plugin names are sorted alphabetically, by a
  case-sensitive, ordinal, byte-wise comparison. The order on \<^typ>\<open>string\<close> is the
  lexicographic order of the byte values.
\<close>

definition Alphabetic_Less :: "string \<Rightarrow> string \<Rightarrow> bool" where
  "Alphabetic_Less a b = (a < b)"

text \<open>
  Modelled from the spec: the method \<^verbatim>\<open>Less\<close> of \<^verbatim>\<open>configv3.PluginCommands\<close>, which is
  not among the sources. The spec: the commands of a plugin are sorted alphabetically by
  \<^verbatim>\<open>Name\<close>.
\<close>

definition PluginCommands_Less :: "PluginCommand \<Rightarrow> PluginCommand \<Rightarrow> bool" where
  "PluginCommands_Less p q = (PluginCommand.Name p < PluginCommand.Name q)"

subsection \<open>\<^verbatim>\<open>getSortedPluginCommands\<close>\<close>

text \<open>The value \<^verbatim>\<open>plugins[pluginName].Commands\<close>: the zero value for a missing key.\<close>

definition plugin_Commands :: "(string \<times> PluginConfig) list \<Rightarrow> string \<Rightarrow> PluginCommand list" where
  "plugin_Commands plugins pluginName =
     (case map_of plugins pluginName of None \<Rightarrow> [] | Some pluginConfig \<Rightarrow> Commands pluginConfig)"

definition getSortedPluginCommands :: "HelpCommand \<Rightarrow> PluginCommand list" where
  "getSortedPluginCommands cmd =
     (let plugins = Plugins (Config cmd);
          sortedPluginNames =
            sort_Sort Alphabetic_Less (fold (\<lambda>(plugin, _) names. names @ [plugin]) plugins [])
      in fold (\<lambda>pluginName pluginCommands.
                 pluginCommands @ sort_Sort PluginCommands_Less (plugin_Commands plugins pluginName))
           sortedPluginNames [])"

subsection \<open>The three-column table of plugin commands\<close>

text \<open>
  \<^verbatim>\<open>int(math.Ceil(float64(n) / 3))\<close>. The conversion of a slice length to
  \<^verbatim>\<open>float64\<close> is exact and the division is correctly rounded: an integral quotient
  is exact, and any other quotient is rounded to a double strictly between the same two
  integers, a slice length being far below \<open>2 ^ 52\<close>. So the result is the ceiling of
  \<open>n / 3\<close>, computed here on integers; \<open>ceil3_real\<close> below relates it to the real
  quotient.
\<close>

definition ceil3 :: "nat \<Rightarrow> nat" where
  "ceil3 n = (n + 2) div 3"

text \<open>Lines 183 to 193: the inner loop fills one row, the outer loop the table; \<open>sz\<close> is
  the variable \<^verbatim>\<open>size\<close>.\<close>

definition table_row :: "PluginCommand list \<Rightarrow> nat \<Rightarrow> nat \<Rightarrow> string list" where
  "table_row pluginCommands sz i =
     fold (\<lambda>j row. let index = i + j * sz
                    in if index < length pluginCommands
                       then row[j := PluginCommand.Name (pluginCommands ! index)] else row)
       [0..<3] (replicate 3 [])"

definition plugin_table :: "PluginCommand list \<Rightarrow> string list list" where
  "plugin_table pluginCommands =
     (let sz = ceil3 (length pluginCommands)
      in fold (\<lambda>i table. table[i := table_row pluginCommands sz i])
           [0..<sz] (replicate sz []))"

subsection \<open>Runs of the command\<close>

text \<open>
  A run of a display function is the list of calls it makes on the output sink, in
  order, and how it ends: it returns a value, or it panics. The calls made before a
  panic stay in the list. The collaborators are read-only snapshots, so a later
  statement never depends on the calls made before it.
\<close>

datatype 'a outcome = Returns 'a | Panics

type_synonym 'a run = "ui_call list \<times> 'a outcome"

definition emit :: "ui_call \<Rightarrow> unit run" where
  "emit c = ([c], Returns ())"

definition skip :: "unit run" where
  "skip = ([], Returns ())"

definition panic :: "unit run" where
  "panic = ([], Panics)"

text \<open>One statement after another: nothing runs after a panic.\<close>

fun seq :: "unit run \<Rightarrow> 'a run \<Rightarrow> 'a run" where
  "seq (w, Panics) m = (w, Panics)"
| "seq (w, Returns u) m = (w @ fst m, snd m)"

definition block :: "unit run list \<Rightarrow> unit run" where
  "block ms = foldr seq ms skip"

definition for_each :: "'a list \<Rightarrow> ('a \<Rightarrow> unit run) \<Rightarrow> unit run" where
  "for_each xs body = block (map body xs)"

definition if_then :: "bool \<Rightarrow> unit run \<Rightarrow> unit run" where
  "if_then b m = (if b then m else skip)"

text \<open>A \<^verbatim>\<open>return v\<close> after the statements of \<open>m\<close>.\<close>

fun then_return :: "unit run \<Rightarrow> 'a \<Rightarrow> 'a run" where
  "then_return (w, Panics) v = (w, Panics)"
| "then_return (w, Returns u) v = (w, Returns v)"

subsection \<open>Standard library\<close>

text \<open>\<^verbatim>\<open>strings.Repeat\<close> panics on a negative count.\<close>

definition strings_Repeat :: "string \<Rightarrow> int \<Rightarrow> string option" where
  "strings_Repeat s count =
     (if count < 0 then None else Some (concat (replicate (nat count) s)))"

text \<open>
  A \<^verbatim>\<open>DisplayText\<close> whose argument map holds a \<^verbatim>\<open>strings.Repeat(" ", count)\<close>: the
  arguments are evaluated before the call, so a panic leaves no call behind.
\<close>

definition with_spaces :: "int \<Rightarrow> (string \<Rightarrow> unit run) \<Rightarrow> unit run" where
  "with_spaces count body =
     (case strings_Repeat '' '' count of None \<Rightarrow> panic | Some spaces \<Rightarrow> body spaces)"

text \<open>
  \<^verbatim>\<open>strings.Replace(s, old, new, -1)\<close> for a non-empty \<open>old\<close> (the only call has
  \<^verbatim>\<open>"CF_NAME"\<close>): every non-overlapping occurrence, from the left.
\<close>

function strings_Replace :: "string \<Rightarrow> string \<Rightarrow> string \<Rightarrow> string" where
  "strings_Replace [] old new = []"
| "strings_Replace (c # cs) old new =
     (if old \<noteq> [] \<and> prefix old (c # cs)
      then new @ strings_Replace (drop (length old) (c # cs)) old new
      else c # strings_Replace cs old new)"
  by pat_completeness auto
termination
  by (relation "measure (\<lambda>(s, old, new). length s)") auto

text \<open>\<^verbatim>\<open>strings.Join\<close>.\<close>

fun strings_Join :: "string list \<Rightarrow> string \<Rightarrow> string" where
  "strings_Join [] sep = []"
| "strings_Join [x] sep = x"
| "strings_Join (x # y # ys) sep = x @ sep @ strings_Join (y # ys) sep"

text \<open>
  \<^verbatim>\<open>fmt.Sprintf("%-29s", s)\<close>: \<open>s\<close> followed by spaces up to a width of 29, the
  width of \<open>s\<close> being counted in runes.
\<close>

definition Sprintf_left29 :: "Deps \<Rightarrow> string \<Rightarrow> string" where
  "Sprintf_left29 deps s = s @ replicate (29 - RuneCountInString deps s) CHR '' ''"

subsection \<open>Package \<^verbatim>\<open>internal\<close>\<close>

text \<open>
  The identifiers that the category lists of the full listing reference, row by row.
\<close>

definition referenced_identifiers :: "Deps \<Rightarrow> string list" where
  "referenced_identifiers deps = concat (concat (map CommandList (HelpCategoryList deps)))"

text \<open>
  Modelled from the spec: \<^verbatim>\<open>internal.LongestCommandName\<close>, which is not among the
  sources. The spec: given the mapping from built-in command names to their
  \<^verbatim>\<open>CommandInfo\<close>, restricted to the identifiers actually referenced by the category
  lists, plus the plugin command list, return the maximum of the name lengths across
  both sets. The names of the mapping are its keys; the category lists are those of the
  package itself, which the model holds in \<open>deps\<close>; the maximum of no name is 0.
\<close>

definition LongestCommandName ::
  "Deps \<Rightarrow> (string \<times> CommandInfo) list \<Rightarrow> PluginCommand list \<Rightarrow> int" where
  "LongestCommandName deps cmds pluginCmds =
     int (fold max
            (map (\<lambda>(name, _). length name)
               (filter (\<lambda>(name, _). name \<in> set (referenced_identifiers deps)) cmds)
             @ map (\<lambda>command. length (PluginCommand.Name command)) pluginCmds) 0)"

text \<open>Lines 249 to 256 of \<^verbatim>\<open>displayCommand\<close>: the formatted name of a flag.\<close>

definition flag_name :: "CommandFlag \<Rightarrow> string" where
  "flag_name flag =
     (if Short flag \<noteq> [] \<and> Long flag \<noteq> [] then ''--'' @ Long flag @ '', -'' @ Short flag
      else if Short flag \<noteq> [] then ''-'' @ Short flag
      else ''--'' @ Long flag)"

text \<open>
  Modelled from the spec: \<^verbatim>\<open>internal.LongestFlagWidth\<close>, which is not among the
  sources. The spec: the padding width is the longest formatted flag name across the
  command, plus 6; the function returns the first summand.
\<close>

definition LongestFlagWidth :: "CommandFlag list \<Rightarrow> int" where
  "LongestFlagWidth flags = int (fold max (map (\<lambda>flag. length (flag_name flag)) flags) 0)"

subsection \<open>The full listing\<close>

definition displayHelpPreamble :: "HelpCommand \<Rightarrow> unit run" where
  "displayHelpPreamble cmd =
     block [
       emit (DisplayHeader ''NAME:''),
       emit (DisplayText (allCommandsIndent @ ''{{.CommandName}} - {{.CommandDescription}}'')
         [(''CommandName'', BinaryName (Config cmd)),
          (''CommandDescription'',
             TranslateText (UI cmd) ''A command line tool to interact with Cloud Foundry'')]),
       emit DisplayNewline,
       emit (DisplayHeader ''USAGE:''),
       emit (DisplayText (allCommandsIndent @ ''{{.CommandName}} {{.CommandUsage}}'')
         [(''CommandName'', BinaryName (Config cmd)),
          (''CommandUsage'',
             TranslateText (UI cmd)
               ''[global options] command [arguments...] [command options]'')]),
       emit DisplayNewline,
       emit (DisplayHeader ''VERSION:''),
       emit (DisplayText (allCommandsIndent @ BinaryVersion (Config cmd)) []),
       emit DisplayNewline]"

text \<open>The value \<^verbatim>\<open>cmdInfo[command]\<close>: the zero value for a missing key.\<close>

definition cmdInfo_at :: "(string \<times> CommandInfo) list \<Rightarrow> string \<Rightarrow> CommandInfo" where
  "cmdInfo_at cmdInfo command =
     (case map_of cmdInfo command of None \<Rightarrow> CommandInfo_zero | Some info \<Rightarrow> info)"

definition listing_text :: "string \<Rightarrow> string \<Rightarrow> string \<Rightarrow> ui_call" where
  "listing_text name description gap =
     DisplayText (allCommandsIndent @ ''{{.CommandName}}{{.Gap}}{{.CommandDescription}}'')
       [(''CommandName'', name), (''CommandDescription'', description), (''Gap'', gap)]"

definition displayAllCommands :: "Deps \<Rightarrow> HelpCommand \<Rightarrow> unit run" where
  "displayAllCommands deps cmd =
     (let pluginCommands = getSortedPluginCommands cmd;
          cmdInfo = CommandInfos (Actor cmd);
          longestCmd = LongestCommandName deps cmdInfo pluginCommands
      in block [
           for_each (HelpCategoryList deps) (\<lambda>category.
             block [
               emit (DisplayHeader (CategoryName category)),
               for_each (CommandList category) (\<lambda>row.
                 block [
                   for_each row (\<lambda>command.
                     with_spaces (longestCmd + 1 - int (length command)) (\<lambda>gap.
                       emit (listing_text
                         (CommandInfo.Name (cmdInfo_at cmdInfo command))
                         (TranslateText (UI cmd)
                            (CommandInfo.Description (cmdInfo_at cmdInfo command)))
                         gap))),
                   emit DisplayNewline])]),
           emit (DisplayHeader ''INSTALLED PLUGIN COMMANDS:''),
           for_each pluginCommands (\<lambda>pluginCommand.
             with_spaces (longestCmd + 1 - int (length (PluginCommand.Name pluginCommand)))
               (\<lambda>gap.
                 emit (listing_text (PluginCommand.Name pluginCommand)
                         (HelpText pluginCommand) gap))),
           emit DisplayNewline])"

definition environmentalVariablesTableData :: "HelpCommand \<Rightarrow> string list list" where
  "environmentalVariablesTableData cmd =
     [[''CF_COLOR=false'', TranslateText (UI cmd) ''Do not colorize output''],
      [''CF_DIAL_TIMEOUT=5'',
       TranslateText (UI cmd)
         ''Max wait time to establish a connection, including name resolution, in seconds''],
      [''CF_HOME=path/to/dir/'',
       TranslateText (UI cmd) ''Override path to default config directory''],
      [''CF_PLUGIN_HOME=path/to/dir/'',
       TranslateText (UI cmd) ''Override path to default plugin config directory''],
      [''CF_TRACE=true'', TranslateText (UI cmd) ''Print API request diagnostics to stdout''],
      [''CF_TRACE=path/to/trace.log'',
       TranslateText (UI cmd) ''Append API request diagnostics to a log file''],
      [''https_proxy=proxy.example.com:8080'',
       TranslateText (UI cmd) ''Enable HTTP proxying for API requests'']]"

definition globalOptionsTableData :: "HelpCommand \<Rightarrow> string list list" where
  "globalOptionsTableData cmd =
     [[''--help, -h'', TranslateText (UI cmd) ''Show help''],
      [''-v'', TranslateText (UI cmd) ''Print API request diagnostics to stdout'']]"

definition displayHelpFooter :: "HelpCommand \<Rightarrow> unit run" where
  "displayHelpFooter cmd =
     block [
       emit (DisplayHeader ''ENVIRONMENT VARIABLES:''),
       emit (DisplayTable allCommandsIndent (environmentalVariablesTableData cmd) 1),
       emit DisplayNewline,
       emit (DisplayHeader ''GLOBAL OPTIONS:''),
       emit (DisplayTable allCommandsIndent (globalOptionsTableData cmd) 25)]"

subsection \<open>The summary of common commands\<close>

text \<open>Lines 162 to 172: the entries of one row of a category.\<close>

definition common_row :: "(string \<times> CommandInfo) list \<Rightarrow> string list \<Rightarrow> string list" where
  "common_row cmdInfo row =
     fold (\<lambda>command finalRow.
             case map_of cmdInfo command of
               Some info \<Rightarrow>
                 (let separator = (if length (CommandInfo.Alias info) > 0 then '','' else '''')
                  in finalRow @ [CommandInfo.Name info @ separator @ CommandInfo.Alias info])
             | None \<Rightarrow> finalRow)
       row []"

definition common_table :: "(string \<times> CommandInfo) list \<Rightarrow> string list list \<Rightarrow> string list list" where
  "common_table cmdInfo commandList =
     fold (\<lambda>row table. table @ [common_row cmdInfo row]) commandList []"

definition displayCommonCommands :: "Deps \<Rightarrow> HelpCommand \<Rightarrow> unit run" where
  "displayCommonCommands deps cmd =
     (let cmdInfo = CommandInfos (Actor cmd)
      in block [
           emit (DisplayText ''{{.CommandName}} {{.VersionCommand}} {{.Version}}, {{.CLI}}''
             [(''CommandName'', BinaryName (Config cmd)),
              (''VersionCommand'', TranslateText (UI cmd) ''version''),
              (''Version'', BinaryVersion (Config cmd)),
              (''CLI'', TranslateText (UI cmd) ''Cloud Foundry command line tool'')]),
           emit (DisplayText ''{{.Usage}} {{.CommandName}} {{.CommandUsage}}''
             [(''Usage'', TranslateText (UI cmd) ''Usage:''),
              (''CommandName'', BinaryName (Config cmd)),
              (''CommandUsage'',
                 TranslateText (UI cmd)
                   ''[global options] command [arguments...] [command options]'')]),
           emit DisplayNewline,
           for_each (CommonHelpCategoryList deps) (\<lambda>category.
             block [
               emit (DisplayHeader (CategoryName category)),
               emit (DisplayTable commonCommandsIndent
                       (common_table cmdInfo (CommandList category)) 4),
               emit DisplayNewline]),
           emit (DisplayHeader ''Commands offered by installed plugins:''),
           emit (DisplayTable commonCommandsIndent
                   (plugin_table (getSortedPluginCommands cmd)) 4),
           emit DisplayNewline,
           emit (DisplayHeader ''Global options:''),
           emit (DisplayTable commonCommandsIndent (globalOptionsTableData cmd) 25),
           emit DisplayNewline,
           emit (DisplayText
             ''These are commonly used commands. Use 'cf help -a' to see all, with descriptions.''
             []),
           emit (DisplayText ''See 'cf help <command>' to read about a specific command.'' [])])"

definition displayFullHelp :: "Deps \<Rightarrow> HelpCommand \<Rightarrow> unit run" where
  "displayFullHelp deps cmd =
     (if AllCommands cmd
      then block [displayHelpPreamble cmd, displayAllCommands deps cmd, displayHelpFooter cmd]
      else displayCommonCommands deps cmd)"

subsection \<open>The page of one command\<close>

text \<open>\<^verbatim>\<open>findPlugin\<close>: the first command of that name, plugin by plugin.\<close>

fun find_command :: "string \<Rightarrow> PluginCommand list \<Rightarrow> PluginCommand option" where
  "find_command name [] = None"
| "find_command name (command # commands) =
     (if PluginCommand.Name command = name then Some command else find_command name commands)"

fun find_in_plugins :: "string \<Rightarrow> (string \<times> PluginConfig) list \<Rightarrow> PluginCommand option" where
  "find_in_plugins name [] = None"
| "find_in_plugins name ((_, pluginConfig) # plugins) =
     (case find_command name (Commands pluginConfig) of
        Some command \<Rightarrow> Some command
      | None \<Rightarrow> find_in_plugins name plugins)"

definition findPlugin :: "Deps \<Rightarrow> HelpCommand \<Rightarrow> CommandInfo \<times> bool" where
  "findPlugin deps cmd =
     (case find_in_plugins (CommandName (OptionalArgs cmd)) (Plugins (Config cmd)) of
        Some command \<Rightarrow> (ConvertPluginToCommandInfo deps command, True)
      | None \<Rightarrow> (CommandInfo_zero, False))"

text \<open>
  Lines 208 to 218 of \<^verbatim>\<open>displayCommand\<close>: the command information the page is made
  of, or the error the function returns. The statement
  \<^verbatim>\<open>if err, ok := err.(sharedaction.ErrorInvalidCommand); ok { ... } else { return err }\<close>
  declares a new variable \<^verbatim>\<open>err\<close> whose scope is the whole statement, the
  \<^verbatim>\<open>else\<close> branch included. When the assertion fails that variable holds the zero value
  of \<^verbatim>\<open>ErrorInvalidCommand\<close>, and this is what the \<^verbatim>\<open>else\<close> branch returns.
\<close>

definition resolve :: "Deps \<Rightarrow> HelpCommand \<Rightarrow> error + CommandInfo" where
  "resolve deps cmd =
     (case CommandInfoByName (Actor cmd) (CommandName (OptionalArgs cmd)) of
        Inr cmdInfo \<Rightarrow> Inr cmdInfo
      | Inl (ErrorInvalidCommand commandName) \<Rightarrow>
          (case findPlugin deps cmd of
             (cmdInfo, found) \<Rightarrow>
               if \<not> found then Inl (ErrorInvalidCommand commandName) else Inr cmdInfo)
      | Inl (OtherError message) \<Rightarrow> Inl ErrorInvalidCommand_zero)"

text \<open>
  Lines 220 to 285 of \<^verbatim>\<open>displayCommand\<close>: the page, section by section. Lines 235 to
  242, the alias:
\<close>

definition alias_section :: "CommandInfo \<Rightarrow> unit run" where
  "alias_section cmdInfo =
     if_then (CommandInfo.Alias cmdInfo \<noteq> [])
       (block [
          emit DisplayNewline,
          emit (DisplayText ''ALIAS:'' []),
          emit (DisplayText (commandIndent @ ''{{.Alias}}'')
            [(''Alias'', CommandInfo.Alias cmdInfo)])])"

text \<open>Lines 244 to 265, the flags; \<open>flag_row\<close> is the body of the loop.\<close>

definition flag_row :: "HelpCommand \<Rightarrow> int \<Rightarrow> CommandFlag \<Rightarrow> unit run" where
  "flag_row cmd nameWidth flag =
     (let name = flag_name flag
      in with_spaces (nameWidth - int (length name)) (\<lambda>spaces.
           emit (DisplayText (commandIndent @ ''{{.Flags}}{{.Spaces}}{{.Description}}'')
             [(''Flags'', name), (''Spaces'', spaces),
              (''Description'', TranslateText (UI cmd) (CommandFlag.Description flag))])))"

definition options_section :: "HelpCommand \<Rightarrow> CommandInfo \<Rightarrow> unit run" where
  "options_section cmd cmdInfo =
     if_then (length (Flags cmdInfo) \<noteq> 0)
       (block [
          emit DisplayNewline,
          emit (DisplayText ''OPTIONS:'' []),
          (let nameWidth = LongestFlagWidth (Flags cmdInfo) + 6
           in for_each (Flags cmdInfo) (flag_row cmd nameWidth))])"

text \<open>Lines 267 to 277, the environment variables.\<close>

definition environment_section :: "Deps \<Rightarrow> HelpCommand \<Rightarrow> CommandInfo \<Rightarrow> unit run" where
  "environment_section deps cmd cmdInfo =
     if_then (length (Environment cmdInfo) \<noteq> 0)
       (block [
          emit DisplayNewline,
          emit (DisplayText ''ENVIRONMENT:'' []),
          for_each (Environment cmdInfo) (\<lambda>envVar.
            emit (DisplayText (commandIndent @ ''{{.EnvVar}}{{.Description}}'')
              [(''EnvVar'',
                  Sprintf_left29 deps
                    (EnvironmentVariable.Name envVar @ ''='' @ DefaultValue envVar)),
               (''Description'',
                  TranslateText (UI cmd) (EnvironmentVariable.Description envVar))]))])"

text \<open>Lines 279 to 283, the related commands.\<close>

definition see_also_section :: "CommandInfo \<Rightarrow> unit run" where
  "see_also_section cmdInfo =
     if_then (length (RelatedCommands cmdInfo) > 0)
       (block [
          emit DisplayNewline,
          emit (DisplayText ''SEE ALSO:'' []),
          emit (DisplayText
            (commandIndent @ strings_Join (RelatedCommands cmdInfo) '', '') [])])"

definition command_page :: "Deps \<Rightarrow> HelpCommand \<Rightarrow> CommandInfo \<Rightarrow> unit run" where
  "command_page deps cmd cmdInfo =
     block [
       emit (DisplayText ''NAME:'' []),
       emit (DisplayText (commandIndent @ ''{{.CommandName}} - {{.CommandDescription}}'')
         [(''CommandName'', CommandInfo.Name cmdInfo),
          (''CommandDescription'', TranslateText (UI cmd) (CommandInfo.Description cmdInfo))]),
       emit DisplayNewline,
       emit (DisplayText ''USAGE:'' []),
       emit (DisplayText (commandIndent @ ''{{.CommandUsage}}'')
         [(''CommandUsage'',
             TranslateText (UI cmd)
               (strings_Replace (Usage cmdInfo) ''CF_NAME'' (BinaryName (Config cmd))))]),
       alias_section cmdInfo,
       options_section cmd cmdInfo,
       environment_section deps cmd cmdInfo,
       see_also_section cmdInfo]"

definition displayCommand :: "Deps \<Rightarrow> HelpCommand \<Rightarrow> error option run" where
  "displayCommand deps cmd =
     (case resolve deps cmd of
        Inl err \<Rightarrow> ([], Returns (Some err))
      | Inr cmdInfo \<Rightarrow> then_return (command_page deps cmd cmdInfo) None)"

subsection \<open>\<^verbatim>\<open>Execute\<close>\<close>

definition Execute :: "Deps \<Rightarrow> HelpCommand \<Rightarrow> string list \<Rightarrow> error option run" where
  "Execute deps cmd args =
     (if CommandName (OptionalArgs cmd) = []
      then then_return (displayFullHelp deps cmd) None
      else displayCommand deps cmd)"

subsection \<open>Reading a trace\<close>

text \<open>
  The section headings of a command page are the calls \<^verbatim>\<open>DisplayText(h)\<close> without
  arguments for one of six fixed strings \<open>h\<close>; a blank line is a call of
  \<^verbatim>\<open>DisplayNewline\<close>.
\<close>

definition page_headings :: "string list" where
  "page_headings = [''NAME:'', ''USAGE:'', ''ALIAS:'', ''OPTIONS:'', ''ENVIRONMENT:'', ''SEE ALSO:'']"

fun heading_of :: "ui_call \<Rightarrow> string list" where
  "heading_of (DisplayText template []) = (if template \<in> set page_headings then [template] else [])"
| "heading_of call = []"

definition section_headings :: "ui_call list \<Rightarrow> string list" where
  "section_headings calls = concat (map heading_of calls)"

definition blank_lines :: "ui_call list \<Rightarrow> nat" where
  "blank_lines calls = length (filter (\<lambda>call. call = DisplayNewline) calls)"

subsection \<open>Example inputs\<close>

definition pcmd :: "string \<Rightarrow> PluginCommand" where
  "pcmd n = \<lparr>PluginCommand.Name = n, Alias = [], HelpText = []\<rparr>"

definition five :: "PluginCommand list" where
  "five = [pcmd ''a'', pcmd ''b'', pcmd ''c'', pcmd ''d'', pcmd ''e'']"

definition zeta_alpha :: "(string \<times> PluginConfig) list" where
  "zeta_alpha =
     [(''zeta'', \<lparr>Commands = [pcmd ''B'', pcmd ''A'']\<rparr>),
      (''alpha'', \<lparr>Commands = [pcmd ''D'', pcmd ''C'']\<rparr>)]"

definition lint_plugin :: "(string \<times> PluginConfig) list" where
  "lint_plugin =
     [(''tools'', \<lparr>Commands = [\<lparr>PluginCommand.Name = ''lint'', Alias = [],
                                  HelpText = ''Check an app''\<rparr>]\<rparr>)]"

definition push_plugin :: "(string \<times> PluginConfig) list" where
  "push_plugin =
     [(''shadow'', \<lparr>Commands = [\<lparr>PluginCommand.Name = ''push'', Alias = [],
                                   HelpText = ''A plugin command''\<rparr>]\<rparr>)]"

definition builtin :: "string \<Rightarrow> string \<Rightarrow> CommandInfo" where
  "builtin name description =
     \<lparr>CommandInfo.Name = name, Description = description, Alias = [],
      Usage = ''CF_NAME '' @ name, Flags = [], Environment = [], RelatedCommands = []\<rparr>"

definition verbose_info :: CommandInfo where
  "verbose_info =
     \<lparr>CommandInfo.Name = ''logs'', Description = ''Show logs'', Alias = [],
      Usage = ''CF_NAME logs'',
      Flags = [\<lparr>Short = ''v'', Long = ''verbose'', Description = ''More output''\<rparr>],
      Environment = [], RelatedCommands = []\<rparr>"

definition push_store :: "(string \<times> CommandInfo) list" where
  "push_store = [(''push'', builtin ''push'' ''Push a new app'')]"


text \<open>
  Modelled from the spec: the actor of package \<^verbatim>\<open>sharedaction\<close>, which is not among the
  sources, over a given catalog. The spec: \<^verbatim>\<open>CommandInfos\<close> is the full built-in
  catalog, and \<^verbatim>\<open>CommandInfoByName\<close> a single lookup whose error of kind
  \<^verbatim>\<open>InvalidCommand\<close> signals that the name is not among the built-ins. It serves as an
  example of an actor only.
\<close>

definition store_actor :: "(string \<times> CommandInfo) list \<Rightarrow> HelpActor" where
  "store_actor store =
     \<lparr>CommandInfoByName =
        (\<lambda>name. case map_of store name of
                   None \<Rightarrow> Inl (ErrorInvalidCommand name)
                 | Some info \<Rightarrow> Inr info),
      CommandInfos = store\<rparr>"

text \<open>An actor whose lookup fails with an error of another kind.\<close>

definition failing_actor :: HelpActor where
  "failing_actor =
     \<lparr>CommandInfoByName = (\<lambda>name. Inl (OtherError ''malformed catalog'')),
      CommandInfos = []\<rparr>"

definition apps_category :: "string list \<Rightarrow> HelpCategory list" where
  "apps_category row = [\<lparr>CategoryName = ''APPS:'', CommandList = [row]\<rparr>]"

definition example_deps :: "HelpCategory list \<Rightarrow> Deps" where
  "example_deps categories =
     \<lparr>HelpCategoryList = categories,
      CommonHelpCategoryList = categories,
      ConvertPluginToCommandInfo =
        (\<lambda>command. builtin (PluginCommand.Name command) (HelpText command)),
      RuneCountInString = length\<rparr>"

definition help_cmd ::
  "HelpActor \<Rightarrow> (string \<times> PluginConfig) list \<Rightarrow> string \<Rightarrow> bool \<Rightarrow> HelpCommand" where
  "help_cmd actor plugins name allCommands =
     \<lparr>UI = \<lparr>TranslateText = (\<lambda>s. s)\<rparr>,
      Actor = actor,
      Config = \<lparr>Plugins = plugins, BinaryName = ''cf'', BinaryVersion = ''6.0''\<rparr>,
      OptionalArgs = \<lparr>CommandName = name\<rparr>,
      AllCommands = allCommands\<rparr>"

section \<open>Properties\<close>

subsection \<open>Runs\<close>

lemma seq_emit: "seq (emit c) m = (c # fst m, snd m)"
  by (simp add: emit_def)

lemma seq_skip: "seq skip m = m"
  by (simp add: skip_def)

lemma block_Nil: "block [] = skip"
  by (simp add: block_def)

lemma block_Cons: "block (m # ms) = seq m (block ms)"
  by (simp add: block_def)

lemma block_returns:
  assumes "\<forall>m \<in> set ms. snd m = Returns ()"
  shows "block ms = (concat (map fst ms), Returns ())"
  using assms
proof (induction ms)
  case Nil
  then show ?case by (simp add: block_Nil skip_def)
next
  case (Cons m ms)
  then have "snd m = Returns ()" by simp
  then have m: "m = (fst m, Returns ())" by (cases m) simp
  have "block ms = (concat (map fst ms), Returns ())" using Cons by simp
  then have "seq (fst m, Returns ()) (block ms) = (fst m @ concat (map fst ms), Returns ())"
    by simp
  with m show ?case by (simp add: block_Cons)
qed

lemma for_each_returns:
  assumes "\<forall>x \<in> set xs. body x = (f x, Returns ())"
  shows "for_each xs body = (concat (map f xs), Returns ())"
proof -
  have m: "map body xs = map (\<lambda>x. (f x, Returns ())) xs"
    using assms by (simp cong: map_cong)
  have "block (map (\<lambda>x. (f x, Returns ())) xs) = (concat (map f xs), Returns ())"
    by (induction xs) (simp_all add: block_Nil block_Cons skip_def)
  then show ?thesis unfolding for_each_def m .
qed


lemma with_spaces_nonneg:
  "0 \<le> count \<Longrightarrow> with_spaces count body = body (replicate (nat count) CHR '' '')"
  by (simp add: with_spaces_def strings_Repeat_def)

lemma with_spaces_neg: "count < 0 \<Longrightarrow> with_spaces count body = panic"
  by (simp add: with_spaces_def strings_Repeat_def)

lemmas run_simps = block_def for_each_def with_spaces_def strings_Repeat_def emit_def skip_def
  panic_def if_then_def

lemma fold_max_ge: "(a::nat) \<le> fold max xs a"
proof (induction xs arbitrary: a)
  case Nil
  then show ?case by simp
next
  case (Cons y ys)
  have "a \<le> max y a" by simp
  also have "\<dots> \<le> fold max ys (max y a)" by (rule Cons.IH)
  finally show ?case by simp
qed

lemma fold_max_mem: "x \<in> set xs \<Longrightarrow> (x::nat) \<le> fold max xs a"
proof (induction xs arbitrary: a)
  case Nil
  then show ?case by simp
next
  case (Cons y ys)
  show ?case
  proof (cases "x = y")
    case True
    have "x \<le> max y a" using True by simp
    also have "\<dots> \<le> fold max ys (max y a)" by (rule fold_max_ge)
    finally show ?thesis by simp
  next
    case False
    with Cons.prems have "x \<in> set ys" by simp
    then have "x \<le> fold max ys (max y a)" by (rule Cons.IH)
    then show ?thesis by simp
  qed
qed


subsection \<open>The sorted plugin commands\<close>

lemma insert_by_insort_key:
  fixes f :: "'a \<Rightarrow> 'b::linorder"
  shows "insert_by (\<lambda>a b. f a < f b) x ys = insort_key f x ys"
  by (induction ys) (auto simp: not_less)

lemma sort_Sort_sort_key:
  fixes f :: "'a \<Rightarrow> 'b::linorder"
  shows "sort_Sort (\<lambda>a b. f a < f b) xs = sort_key f xs"
  by (induction xs) (simp_all add: sort_Sort_def insert_by_insort_key)

lemma sort_Sort_Alphabetic: "sort_Sort Alphabetic_Less xs = sort xs"
  using sort_Sort_sort_key [of "\<lambda>x. x" xs] by (simp add: Alphabetic_Less_def [abs_def])

lemma sort_Sort_PluginCommands:
  "sort_Sort PluginCommands_Less xs = sort_key PluginCommand.Name xs"
  using sort_Sort_sort_key [of PluginCommand.Name xs]
  by (simp add: PluginCommands_Less_def [abs_def])

lemma fold_append_keys: "fold (\<lambda>(plugin, _) names. names @ [plugin]) ps acc = acc @ map fst ps"
  by (induction ps arbitrary: acc) (auto split: prod.splits)

lemma fold_append_concat: "fold (\<lambda>x acc. acc @ f x) xs acc = acc @ concat (map f xs)"
  by (induction xs arbitrary: acc) auto

lemma getSortedPluginCommands_eq:
  "getSortedPluginCommands cmd =
     concat (map (\<lambda>n. sort_key PluginCommand.Name (plugin_Commands (Plugins (Config cmd)) n))
               (sort (map fst (Plugins (Config cmd)))))"
  by (simp add: getSortedPluginCommands_def Let_def sort_Sort_Alphabetic
      sort_Sort_PluginCommands fold_append_keys fold_append_concat)

lemma sort_distinct_keys:
  assumes "distinct (map fst ps)"
  shows "sort (map fst ps) = sorted_list_of_set (dom (map_of ps))"
proof -
  have "sorted_list_of_set (set (map fst ps)) = sort (remdups (map fst ps))"
    by (rule sorted_list_of_set_sort_remdups)
  with assms show ?thesis
    by (simp add: dom_map_of_conv_image_fst distinct_remdups_id)
qed

lemma map_insort_key:
  fixes f :: "'a \<Rightarrow> 'b::linorder"
  shows "map f (insort_key f x xs) = insort (f x) (map f xs)"
  by (induction xs) simp_all

lemma map_sort_key:
  fixes f :: "'a \<Rightarrow> 'b::linorder"
  shows "map f (sort_key f xs) = sort (map f xs)"
  by (induction xs) (simp_all add: map_insort_key)


text \<open>
  Claim C2. For every plugin mapping (an association list with distinct keys, in any
  iteration order) \<^verbatim>\<open>getSortedPluginCommands\<close> returns, for the plugin names in
  ascending order of the byte-wise comparison, the commands of each plugin sorted by
  name, one plugin after the other; the names of the result are the sorted names of each
  plugin in that order, whatever a sort does with two commands of one name; and two
  iteration orders of the same mapping give the same list. In the example of the spec,
  the plugins \<open>zeta\<close> with \<open>B, A\<close> and \<open>alpha\<close> with \<open>D, C\<close> give \<open>C, D, A, B\<close>.
\<close>

theorem getSortedPluginCommands_two_level:
  assumes "distinct (map fst (Plugins (Config cmd)))"
    and "distinct (map fst (Plugins (Config cmd')))"
    and "map_of (Plugins (Config cmd)) = map_of (Plugins (Config cmd'))"
  shows "getSortedPluginCommands cmd =
           concat (map (\<lambda>n. sort_key PluginCommand.Name
                               (Commands (the (map_of (Plugins (Config cmd)) n))))
                     (sorted_list_of_set (dom (map_of (Plugins (Config cmd))))))
         \<and> map PluginCommand.Name (getSortedPluginCommands cmd) =
           concat (map (\<lambda>n. sort (map PluginCommand.Name
                                     (Commands (the (map_of (Plugins (Config cmd)) n)))))
                     (sorted_list_of_set (dom (map_of (Plugins (Config cmd))))))
         \<and> getSortedPluginCommands cmd' = getSortedPluginCommands cmd"
proof -
  have eq: "getSortedPluginCommands c =
           concat (map (\<lambda>n. sort_key PluginCommand.Name
                               (Commands (the (map_of (Plugins (Config c)) n))))
                     (sorted_list_of_set (dom (map_of (Plugins (Config c))))))"
    if "distinct (map fst (Plugins (Config c)))" for c
  proof -
    have "finite (dom (map_of (Plugins (Config c))))" by (simp add: finite_dom_map_of)
    then have "plugin_Commands (Plugins (Config c)) n = Commands (the (map_of (Plugins (Config c)) n))"
      if "n \<in> set (sorted_list_of_set (dom (map_of (Plugins (Config c)))))" for n
      using that by (auto simp: plugin_Commands_def)
    then show ?thesis
      unfolding getSortedPluginCommands_eq sort_distinct_keys [OF that]
      by (simp cong: map_cong)
  qed
  have names: "map PluginCommand.Name (getSortedPluginCommands cmd) =
           concat (map (\<lambda>n. sort (map PluginCommand.Name
                                     (Commands (the (map_of (Plugins (Config cmd)) n)))))
                     (sorted_list_of_set (dom (map_of (Plugins (Config cmd))))))"
    unfolding eq [OF assms(1)] by (simp add: map_concat comp_def map_sort_key)
  show ?thesis using eq [OF assms(1)] eq [OF assms(2)] assms(3) names by simp
qed

theorem getSortedPluginCommands_two_level_witness:
  "distinct (map fst zeta_alpha) \<and> distinct (map fst (rev zeta_alpha))
   \<and> map_of zeta_alpha = map_of (rev zeta_alpha)
   \<and> getSortedPluginCommands (help_cmd (store_actor push_store) zeta_alpha [] False) =
       [pcmd ''C'', pcmd ''D'', pcmd ''A'', pcmd ''B'']
   \<and> getSortedPluginCommands (help_cmd (store_actor push_store) (rev zeta_alpha) [] False) =
       [pcmd ''C'', pcmd ''D'', pcmd ''A'', pcmd ''B'']"
proof -
  have d1: "distinct (map fst (Plugins (Config (help_cmd (store_actor push_store) zeta_alpha [] False))))"
    by (simp add: help_cmd_def zeta_alpha_def)
  have d2: "distinct (map fst (Plugins (Config (help_cmd (store_actor push_store) (rev zeta_alpha) [] False))))"
    by (simp add: help_cmd_def zeta_alpha_def)
  have m: "map_of (Plugins (Config (help_cmd (store_actor push_store) zeta_alpha [] False))) =
           map_of (Plugins (Config (help_cmd (store_actor push_store) (rev zeta_alpha) [] False)))"
    by (rule ext) (simp add: help_cmd_def zeta_alpha_def)
  have v: "getSortedPluginCommands (help_cmd (store_actor push_store) zeta_alpha [] False) =
       [pcmd ''C'', pcmd ''D'', pcmd ''A'', pcmd ''B'']"
    by (simp add: getSortedPluginCommands_def help_cmd_def zeta_alpha_def Let_def
        sort_Sort_def Alphabetic_Less_def PluginCommands_Less_def plugin_Commands_def pcmd_def)
  from getSortedPluginCommands_two_level [OF d1 d2 m] d1 d2 m v show ?thesis
    by (simp add: help_cmd_def)
qed

subsection \<open>The three-column table\<close>

lemma ceil3_real: "ceil3 n = nat \<lceil>real n / 3\<rceil>"
proof -
  have "\<lceil>real n / 3\<rceil> = int ((n + 2) div 3)"
  proof (rule ceiling_unique)
    have a: "3 * ((n + 2) div 3) \<le> n + 2" by simp
    have b: "n < 3 * ((n + 2) div 3) + 1"
      using mod_less_divisor [of 3 "n + 2"] div_mult_mod_eq [of "n + 2" 3] by linarith
    have "real (3 * ((n + 2) div 3)) < real n + 3" using a by linarith
    then show "real_of_int (int ((n + 2) div 3)) - 1 < real n / 3"
      by simp
    have "real n \<le> real (3 * ((n + 2) div 3))" using b
      by (metis Suc_eq_plus1 less_Suc_eq_le of_nat_le_iff)
    then show "real n / 3 \<le> real_of_int (int ((n + 2) div 3))"
      by simp
  qed
  then show ?thesis by (simp add: ceil3_def)
qed

lemma fold_update_upt:
  "k \<le> n \<Longrightarrow> fold (\<lambda>i t. t[i := f i]) [0..<k] (replicate n d) = map f [0..<k] @ replicate (n - k) d"
proof (induction k)
  case 0
  then show ?case by simp
next
  case (Suc k)
  then obtain m where m: "n - k = Suc m" "n - Suc k = m"
    by (cases "n - k") auto
  have "fold (\<lambda>i t. t[i := f i]) [0..<Suc k] (replicate n d)
        = (map f [0..<k] @ replicate (n - k) d)[k := f k]"
    using Suc by simp
  also have "\<dots> = map f [0..<k] @ (replicate (Suc m) d)[0 := f k]"
    using m by (simp add: list_update_append)
  also have "\<dots> = map f [0..<Suc k] @ replicate (n - Suc k) d"
    using m by simp
  finally show ?case .
qed

lemma upt3: "[0..<3] = [0, 1, 2]"
  by (simp add: upt_conv_Cons)

lemma table_row_eq:
  "table_row pcs sz i =
     map (\<lambda>j. if i + j * sz < length pcs then PluginCommand.Name (pcs ! (i + j * sz)) else [])
       [0..<3]"
  by (simp add: table_row_def Let_def upt3 numeral_3_eq_3)

lemma plugin_table_eq:
  "plugin_table pcs = map (table_row pcs (ceil3 (length pcs))) [0..<ceil3 (length pcs)]"
  by (simp add: plugin_table_def Let_def fold_update_upt)

lemma length_plugin_table: "length (plugin_table pcs) = ceil3 (length pcs)"
  by (simp add: plugin_table_eq)

lemma cell_unique:
  assumes "k < n"
  shows "\<exists>!(i, j). i < ceil3 n \<and> j < 3 \<and> i + j * ceil3 n = k"
proof -
  let ?r = "ceil3 n"
  have r: "0 < ?r" "n \<le> 3 * ?r" using assms by (auto simp: ceil3_def)
  have d: "k div ?r < 3" using assms r by (simp add: div_less_iff_less_mult mult.commute)
  have m: "k mod ?r < ?r" using r by simp
  have e: "k mod ?r + k div ?r * ?r = k" by simp
  have u: "i = k mod ?r \<and> j = k div ?r" if "i < ?r" "i + j * ?r = k" for i j
    using that by auto
  show ?thesis
  proof (rule ex1I [of _ "(k mod ?r, k div ?r)"])
    show "case (k mod ?r, k div ?r) of (i, j) \<Rightarrow> i < ?r \<and> j < 3 \<and> i + j * ?r = k"
      using d m e by simp
  next
    fix p :: "nat \<times> nat"
    assume p: "case p of (i, j) \<Rightarrow> i < ?r \<and> j < 3 \<and> i + j * ?r = k"
    obtain i j where ij: "p = (i, j)" by (cases p)
    with p have "i < ?r" "i + j * ?r = k" by simp_all
    then have "i = k mod ?r \<and> j = k div ?r" by (rule u)
    with ij show "p = (k mod ?r, k div ?r)" by simp
  qed
qed

lemma row_len: "i < ceil3 (length pcs) \<Longrightarrow> length (plugin_table pcs ! i) = 3"
  by (simp add: plugin_table_eq table_row_eq)

lemma row_cell:
  "i < ceil3 (length pcs) \<Longrightarrow> j < 3 \<Longrightarrow>
   plugin_table pcs ! i ! j =
     (if i + j * ceil3 (length pcs) < length pcs
      then PluginCommand.Name (pcs ! (i + j * ceil3 (length pcs))) else [])"
  by (simp add: plugin_table_eq table_row_eq)

text \<open>
  Claim C1. For every list of plugin commands, of any length \<open>N\<close>, the table of the
  summary has \<open>\<lceil>N / 3\<rceil>\<close> rows of 3 cells each; the cell in row \<open>i\<close> and column
  \<open>j\<close> holds the name at index \<open>i + j * rows\<close> when that index is below \<open>N\<close> and
  the empty string otherwise; and every index below \<open>N\<close> is the index of exactly one
  cell, so every name is placed exactly once, column by column. For the five names
  \<open>a, b, c, d, e\<close> the rows are \<open>a, c, e\<close> and \<open>b, d\<close> with an empty third cell.
\<close>

theorem plugin_table_layout:
  "length (plugin_table pcs) = nat \<lceil>real (length pcs) / 3\<rceil>
   \<and> (\<forall>i < length (plugin_table pcs).
         length (plugin_table pcs ! i) = 3
         \<and> (\<forall>j < 3. plugin_table pcs ! i ! j =
               (if i + j * length (plugin_table pcs) < length pcs
                then PluginCommand.Name (pcs ! (i + j * length (plugin_table pcs))) else [])))
   \<and> (\<forall>k < length pcs.
         \<exists>!(i, j). i < length (plugin_table pcs) \<and> j < 3
                   \<and> i + j * length (plugin_table pcs) = k)"
  unfolding length_plugin_table
proof (intro conjI allI impI)
  show "ceil3 (length pcs) = nat \<lceil>real (length pcs) / 3\<rceil>"
    by (rule ceil3_real)
next
  fix i assume "i < ceil3 (length pcs)"
  then show "length (plugin_table pcs ! i) = 3"
    by (rule row_len)
next
  fix i j :: nat assume "i < ceil3 (length pcs)" "j < 3"
  then show "plugin_table pcs ! i ! j =
               (if i + j * ceil3 (length pcs) < length pcs
                then PluginCommand.Name (pcs ! (i + j * ceil3 (length pcs))) else [])"
    by (rule row_cell)
next
  fix k assume "k < length pcs"
  then show "\<exists>!(i, j). i < ceil3 (length pcs) \<and> j < 3 \<and> i + j * ceil3 (length pcs) = k"
    by (rule cell_unique)
qed

theorem plugin_table_layout_witness:
  "length (plugin_table five) = 2
   \<and> (1 < length (plugin_table five) \<and> (2::nat) < 3 \<and> plugin_table five ! 1 ! 2 = [])
   \<and> (0 < length (plugin_table five) \<and> (2::nat) < 3 \<and> plugin_table five ! 0 ! 2 = ''e'')
   \<and> plugin_table five = [[''a'', ''c'', ''e''], [''b'', ''d'', '''']]"
proof -
  note L = plugin_table_layout [of five]
  have n: "length five = 5" by (simp add: five_def)
  from L have len: "length (plugin_table five) = 2" by (simp add: n)
  from L have cells: "\<forall>i < 2. \<forall>j < 3. plugin_table five ! i ! j =
      (if i + j * 2 < 5 then PluginCommand.Name (five ! (i + j * 2)) else [])"
    by (simp add: len n)
  from cells have c12: "plugin_table five ! 1 ! 2 = []" by simp
  from cells have "plugin_table five ! 0 ! 2 = PluginCommand.Name (five ! 4)" by simp
  then have c02: "plugin_table five ! 0 ! 2 = ''e''" by (simp add: five_def pcmd_def)
  have ex: "plugin_table five = [[''a'', ''c'', ''e''], [''b'', ''d'', '''']]"
    by (simp add: plugin_table_eq table_row_eq ceil3_def five_def pcmd_def upt3 upt_conv_Cons)
  from len c12 c02 ex show ?thesis by simp
qed

subsection \<open>Resolving the command of a page\<close>

lemma flag_row_Plugins:
  "flag_row (cmd\<lparr>Config := (Config cmd)\<lparr>Plugins := ps\<rparr>\<rparr>) w = flag_row cmd w"
  by (rule ext) (simp add: flag_row_def)

lemma command_page_Plugins:
  "command_page deps (cmd\<lparr>Config := (Config cmd)\<lparr>Plugins := ps\<rparr>\<rparr>) info = command_page deps cmd info"
  by (simp add: command_page_def options_section_def environment_section_def flag_row_Plugins)

text \<open>
  Claim C3. When the lookup of the actor succeeds for the requested name, the page is
  the one of the built-in entry, whatever the plugin configuration holds: no plugin
  command of the same name can take its place, since the plugins are looked at only
  after the lookup has failed with \<^verbatim>\<open>ErrorInvalidCommand\<close>.
\<close>

theorem builtin_not_shadowed:
  assumes "CommandInfoByName (Actor cmd) (CommandName (OptionalArgs cmd)) = Inr info"
  shows "resolve deps (cmd\<lparr>Config := (Config cmd)\<lparr>Plugins := ps\<rparr>\<rparr>) = Inr info
         \<and> displayCommand deps (cmd\<lparr>Config := (Config cmd)\<lparr>Plugins := ps\<rparr>\<rparr>) =
             then_return (command_page deps cmd info) None"
proof -
  have r: "resolve deps (cmd\<lparr>Config := (Config cmd)\<lparr>Plugins := ps\<rparr>\<rparr>) = Inr info"
    using assms by (simp add: resolve_def)
  then show ?thesis
    by (simp add: displayCommand_def command_page_Plugins)
qed

theorem builtin_not_shadowed_witness:
  "CommandInfoByName (Actor (help_cmd (store_actor push_store) [] ''push'' False)) ''push'' =
     Inr (builtin ''push'' ''Push a new app'')
   \<and> find_in_plugins ''push'' push_plugin =
       Some \<lparr>PluginCommand.Name = ''push'', Alias = [], HelpText = ''A plugin command''\<rparr>
   \<and> resolve (example_deps []) (help_cmd (store_actor push_store) push_plugin ''push'' False) =
       Inr (builtin ''push'' ''Push a new app'')"
proof -
  let ?cmd = "help_cmd (store_actor push_store) [] ''push'' False"
  have a: "CommandInfoByName (Actor ?cmd) (CommandName (OptionalArgs ?cmd)) =
             Inr (builtin ''push'' ''Push a new app'')"
    by (simp add: help_cmd_def store_actor_def push_store_def)
  have u: "?cmd\<lparr>Config := (Config ?cmd)\<lparr>Plugins := push_plugin\<rparr>\<rparr> =
           help_cmd (store_actor push_store) push_plugin ''push'' False"
    by (simp add: help_cmd_def)
  have f: "find_in_plugins ''push'' push_plugin =
       Some \<lparr>PluginCommand.Name = ''push'', Alias = [], HelpText = ''A plugin command''\<rparr>"
    by (simp add: push_plugin_def)
  from builtin_not_shadowed [OF a, of "example_deps []" push_plugin] a f show ?thesis
    unfolding u by (simp add: help_cmd_def)
qed

lemma find_command_None:
  "find_command name commands = None \<longleftrightarrow> (\<forall>command \<in> set commands. PluginCommand.Name command \<noteq> name)"
  by (induction commands) auto

lemma find_in_plugins_None:
  "find_in_plugins name plugins = None \<longleftrightarrow>
     (\<forall>(pluginName, pluginConfig) \<in> set plugins.
        \<forall>command \<in> set (Commands pluginConfig). PluginCommand.Name command \<noteq> name)"
  by (induction plugins) (auto simp: find_command_None split: option.splits)

text \<open>
  Claim C6. When the lookup of the actor fails with \<^verbatim>\<open>ErrorInvalidCommand\<close> and no
  command of any plugin has the requested name, \<^verbatim>\<open>displayCommand\<close> returns that error
  and makes no call on the output sink: no part of a page is written.
\<close>

theorem unknown_command_no_output:
  assumes "CommandInfoByName (Actor cmd) (CommandName (OptionalArgs cmd)) =
             Inl (ErrorInvalidCommand n)"
    and "\<forall>(pluginName, pluginConfig) \<in> set (Plugins (Config cmd)).
           \<forall>command \<in> set (Commands pluginConfig).
             PluginCommand.Name command \<noteq> CommandName (OptionalArgs cmd)"
  shows "displayCommand deps cmd = ([], Returns (Some (ErrorInvalidCommand n)))"
proof -
  from assms(2)
  have "find_in_plugins (CommandName (OptionalArgs cmd)) (Plugins (Config cmd)) = None"
    by (simp only: find_in_plugins_None)
  with assms(1) show ?thesis
    by (simp add: displayCommand_def resolve_def findPlugin_def)
qed

theorem unknown_command_no_output_witness:
  "displayCommand (example_deps [])
     (help_cmd (store_actor push_store) lint_plugin ''rock'' False) =
   ([], Returns (Some (ErrorInvalidCommand ''rock'')))"
proof -
  let ?cmd = "help_cmd (store_actor push_store) lint_plugin ''rock'' False"
  have a: "CommandInfoByName (Actor ?cmd) (CommandName (OptionalArgs ?cmd)) =
             Inl (ErrorInvalidCommand ''rock'')"
    by (simp add: help_cmd_def store_actor_def push_store_def)
  have b: "\<forall>(pluginName, pluginConfig) \<in> set (Plugins (Config ?cmd)).
           \<forall>command \<in> set (Commands pluginConfig).
             PluginCommand.Name command \<noteq> CommandName (OptionalArgs ?cmd)"
    by (simp add: help_cmd_def lint_plugin_def)
  from unknown_command_no_output [OF a b] show ?thesis .
qed

text \<open>
  Claim C7, which the code does not meet. The actor fails with an error that is not an
  \<^verbatim>\<open>ErrorInvalidCommand\<close>. \<^verbatim>\<open>displayCommand\<close> makes no call on the output sink and
  does not look at the plugins, but the error it returns is not the one it received: it
  is the zero value of \<^verbatim>\<open>ErrorInvalidCommand\<close>, the content of the variable that the
  type assertion declared.
\<close>

theorem other_error_replaced:
  "displayCommand (example_deps []) (help_cmd failing_actor [] ''push'' False) =
     ([], Returns (Some (ErrorInvalidCommand [])))"
  by (simp add: displayCommand_def resolve_def help_cmd_def failing_actor_def
      ErrorInvalidCommand_zero_def)

lemma findPlugin_AllCommands: "findPlugin deps (cmd\<lparr>AllCommands := a\<rparr>) = findPlugin deps cmd"
  by (simp add: findPlugin_def)

lemma resolve_AllCommands: "resolve deps (cmd\<lparr>AllCommands := a\<rparr>) = resolve deps cmd"
  by (simp add: resolve_def findPlugin_AllCommands cong: sum.case_cong error.case_cong)

lemma flag_row_AllCommands: "flag_row (cmd\<lparr>AllCommands := a\<rparr>) w = flag_row cmd w"
  by (rule ext) (simp add: flag_row_def)

lemma command_page_AllCommands:
  "command_page deps (cmd\<lparr>AllCommands := a\<rparr>) info = command_page deps cmd info"
  by (simp add: command_page_def options_section_def environment_section_def
      flag_row_AllCommands)

lemma displayCommand_AllCommands:
  "displayCommand deps (cmd\<lparr>AllCommands := a\<rparr>) = displayCommand deps cmd"
  by (simp add: displayCommand_def resolve_AllCommands command_page_AllCommands
      cong: sum.case_cong)

text \<open>
  Claim C10. With a non-empty command name \<^verbatim>\<open>Execute\<close> is \<^verbatim>\<open>displayCommand\<close>, whatever
  the value of the flag \<^verbatim>\<open>AllCommands\<close>: the flag is read in the branch of the empty
  name only.
\<close>

theorem Execute_ignores_AllCommands:
  assumes "CommandName (OptionalArgs cmd) \<noteq> []"
  shows "Execute deps (cmd\<lparr>AllCommands := a\<rparr>) args = displayCommand deps cmd"
  using assms by (simp add: Execute_def displayCommand_AllCommands)

theorem Execute_ignores_AllCommands_witness:
  "CommandName (OptionalArgs (help_cmd (store_actor push_store) [] ''push'' False)) \<noteq> []
   \<and> Execute (example_deps []) (help_cmd (store_actor push_store) [] ''push'' True) [] =
       displayCommand (example_deps []) (help_cmd (store_actor push_store) [] ''push'' False)
   \<and> fst (Execute (example_deps []) (help_cmd (store_actor push_store) [] ''push'' True) []) =
       [DisplayText ''NAME:'' [],
        DisplayText ''   {{.CommandName}} - {{.CommandDescription}}''
          [(''CommandName'', ''push''), (''CommandDescription'', ''Push a new app'')],
        DisplayNewline,
        DisplayText ''USAGE:'' [],
        DisplayText ''   {{.CommandUsage}}'' [(''CommandUsage'', ''cf push'')]]"
proof -
  let ?cmd = "help_cmd (store_actor push_store) [] ''push'' False"
  have a: "CommandName (OptionalArgs ?cmd) \<noteq> []"
    by (simp add: help_cmd_def)
  have u: "?cmd\<lparr>AllCommands := True\<rparr> = help_cmd (store_actor push_store) [] ''push'' True"
    by (simp add: help_cmd_def)
  have p: "fst (displayCommand (example_deps []) ?cmd) =
       [DisplayText ''NAME:'' [],
        DisplayText ''   {{.CommandName}} - {{.CommandDescription}}''
          [(''CommandName'', ''push''), (''CommandDescription'', ''Push a new app'')],
        DisplayNewline,
        DisplayText ''USAGE:'' [],
        DisplayText ''   {{.CommandUsage}}'' [(''CommandUsage'', ''cf push'')]]"
    by (simp add: displayCommand_def resolve_def command_page_def alias_section_def
        options_section_def environment_section_def see_also_section_def run_simps
        commandIndent_def help_cmd_def store_actor_def push_store_def builtin_def)
  from Execute_ignores_AllCommands [OF a, of "example_deps []" True "[]"] a p
  show ?thesis unfolding u by simp
qed

subsection \<open>The sections of a page\<close>

lemma section_headings_append:
  "section_headings (xs @ ys) = section_headings xs @ section_headings ys"
  by (simp add: section_headings_def)

lemma blank_lines_append: "blank_lines (xs @ ys) = blank_lines xs + blank_lines ys"
  by (simp add: blank_lines_def)

lemma alias_section_eq:
  "alias_section info =
     ((if CommandInfo.Alias info \<noteq> []
       then [DisplayNewline, DisplayText ''ALIAS:'' [],
             DisplayText (commandIndent @ ''{{.Alias}}'') [(''Alias'', CommandInfo.Alias info)]]
       else []), Returns ())"
  by (simp add: alias_section_def if_then_def block_Cons block_Nil seq_emit skip_def)

lemma see_also_section_eq:
  "see_also_section info =
     ((if RelatedCommands info \<noteq> []
       then [DisplayNewline, DisplayText ''SEE ALSO:'' [],
             DisplayText (commandIndent @ strings_Join (RelatedCommands info) '', '') []]
       else []), Returns ())"
  by (simp add: see_also_section_def if_then_def block_Cons block_Nil seq_emit skip_def)

lemma environment_section_eq:
  "environment_section deps cmd info =
     ((if Environment info \<noteq> []
       then DisplayNewline # DisplayText ''ENVIRONMENT:'' [] #
            map (\<lambda>envVar. DisplayText (commandIndent @ ''{{.EnvVar}}{{.Description}}'')
              [(''EnvVar'',
                  Sprintf_left29 deps
                    (EnvironmentVariable.Name envVar @ ''='' @ DefaultValue envVar)),
               (''Description'',
                  TranslateText (UI cmd) (EnvironmentVariable.Description envVar))])
              (Environment info)
       else []), Returns ())"
proof -
  have "for_each (Environment info) (\<lambda>envVar.
            emit (DisplayText (commandIndent @ ''{{.EnvVar}}{{.Description}}'')
              [(''EnvVar'',
                  Sprintf_left29 deps
                    (EnvironmentVariable.Name envVar @ ''='' @ DefaultValue envVar)),
               (''Description'',
                  TranslateText (UI cmd) (EnvironmentVariable.Description envVar))]))
        = (concat (map (\<lambda>envVar. [DisplayText (commandIndent @ ''{{.EnvVar}}{{.Description}}'')
              [(''EnvVar'',
                  Sprintf_left29 deps
                    (EnvironmentVariable.Name envVar @ ''='' @ DefaultValue envVar)),
               (''Description'',
                  TranslateText (UI cmd) (EnvironmentVariable.Description envVar))]])
              (Environment info)), Returns ())"
    by (rule for_each_returns) (simp add: emit_def)
  then show ?thesis
    by (simp add: environment_section_def if_then_def block_Cons block_Nil seq_emit skip_def
        concat_map_singleton)
qed

lemma flag_row_eq:
  assumes "flag \<in> set flags"
  shows "flag_row cmd (LongestFlagWidth flags + 6) flag =
     ([DisplayText (commandIndent @ ''{{.Flags}}{{.Spaces}}{{.Description}}'')
         [(''Flags'', flag_name flag),
          (''Spaces'', replicate (nat (LongestFlagWidth flags + 6 - int (length (flag_name flag))))
                         CHR '' ''),
          (''Description'', TranslateText (UI cmd) (CommandFlag.Description flag))]],
      Returns ())"
proof -
  have "length (flag_name flag) \<in> set (map (\<lambda>flag. length (flag_name flag)) flags)"
    using assms by simp
  then have "length (flag_name flag) \<le> fold max (map (\<lambda>flag. length (flag_name flag)) flags) 0"
    by (rule fold_max_mem)
  then have "0 \<le> LongestFlagWidth flags + 6 - int (length (flag_name flag))"
    by (simp add: LongestFlagWidth_def)
  then show ?thesis
    by (simp add: flag_row_def Let_def with_spaces_nonneg emit_def)
qed

lemma options_section_eq:
  "options_section cmd info =
     ((if Flags info \<noteq> []
       then DisplayNewline # DisplayText ''OPTIONS:'' [] #
            map (\<lambda>flag. DisplayText (commandIndent @ ''{{.Flags}}{{.Spaces}}{{.Description}}'')
              [(''Flags'', flag_name flag),
               (''Spaces'',
                  replicate (nat (LongestFlagWidth (Flags info) + 6
                                  - int (length (flag_name flag)))) CHR '' ''),
               (''Description'', TranslateText (UI cmd) (CommandFlag.Description flag))])
              (Flags info)
       else []), Returns ())"
proof -
  have "for_each (Flags info) (flag_row cmd (LongestFlagWidth (Flags info) + 6))
        = (concat (map (\<lambda>flag. [DisplayText (commandIndent @ ''{{.Flags}}{{.Spaces}}{{.Description}}'')
              [(''Flags'', flag_name flag),
               (''Spaces'',
                  replicate (nat (LongestFlagWidth (Flags info) + 6
                                  - int (length (flag_name flag)))) CHR '' ''),
               (''Description'', TranslateText (UI cmd) (CommandFlag.Description flag))]])
              (Flags info)), Returns ())"
    by (rule for_each_returns) (simp add: flag_row_eq)
  then show ?thesis
    by (simp add: options_section_def if_then_def block_Cons block_Nil seq_emit skip_def
        concat_map_singleton Let_def)
qed

lemma command_page_eq:
  "command_page deps cmd info =
     ([DisplayText ''NAME:'' [],
       DisplayText (commandIndent @ ''{{.CommandName}} - {{.CommandDescription}}'')
         [(''CommandName'', CommandInfo.Name info),
          (''CommandDescription'', TranslateText (UI cmd) (CommandInfo.Description info))],
       DisplayNewline,
       DisplayText ''USAGE:'' [],
       DisplayText (commandIndent @ ''{{.CommandUsage}}'')
         [(''CommandUsage'',
             TranslateText (UI cmd)
               (strings_Replace (Usage info) ''CF_NAME'' (BinaryName (Config cmd))))]]
      @ fst (alias_section info) @ fst (options_section cmd info)
      @ fst (environment_section deps cmd info) @ fst (see_also_section info),
      Returns ())"
  unfolding command_page_def
  by (subst block_returns)
     (simp_all add: emit_def alias_section_eq options_section_eq environment_section_eq
        see_also_section_eq)

lemma alias_section_obs:
  "section_headings (fst (alias_section info)) =
     (if CommandInfo.Alias info \<noteq> [] then [''ALIAS:''] else [])"
  "blank_lines (fst (alias_section info)) = (if CommandInfo.Alias info \<noteq> [] then 1 else 0)"
  "fst (alias_section info) = [] \<longleftrightarrow> CommandInfo.Alias info = []"
  by (simp_all add: alias_section_eq section_headings_def blank_lines_def page_headings_def
      commandIndent_def)

lemma see_also_section_obs:
  "section_headings (fst (see_also_section info)) =
     (if RelatedCommands info \<noteq> [] then [''SEE ALSO:''] else [])"
  "blank_lines (fst (see_also_section info)) = (if RelatedCommands info \<noteq> [] then 1 else 0)"
  "fst (see_also_section info) = [] \<longleftrightarrow> RelatedCommands info = []"
  by (simp_all add: see_also_section_eq section_headings_def blank_lines_def page_headings_def
      commandIndent_def)

lemma options_section_obs:
  "section_headings (fst (options_section cmd info)) =
     (if Flags info \<noteq> [] then [''OPTIONS:''] else [])"
  "blank_lines (fst (options_section cmd info)) = (if Flags info \<noteq> [] then 1 else 0)"
  "fst (options_section cmd info) = [] \<longleftrightarrow> Flags info = []"
  by (simp_all add: options_section_eq section_headings_def blank_lines_def page_headings_def
      comp_def)

lemma environment_section_obs:
  "section_headings (fst (environment_section deps cmd info)) =
     (if Environment info \<noteq> [] then [''ENVIRONMENT:''] else [])"
  "blank_lines (fst (environment_section deps cmd info)) =
     (if Environment info \<noteq> [] then 1 else 0)"
  "fst (environment_section deps cmd info) = [] \<longleftrightarrow> Environment info = []"
  by (simp_all add: environment_section_eq section_headings_def blank_lines_def
      page_headings_def comp_def)

text \<open>
  Claim C8. The page of a command never panics; its headings are \<open>NAME:\<close> and
  \<open>USAGE:\<close> followed by those of \<open>ALIAS:\<close>, \<open>OPTIONS:\<close>, \<open>ENVIRONMENT:\<close> and
  \<open>SEE ALSO:\<close> whose own field is not empty, in this order, each independently of the
  other fields; the page has one blank line after the name and one more for each section
  present; and a section whose field is empty makes no call at all.
\<close>

theorem command_page_sections:
  "snd (command_page deps cmd info) = Returns ()
   \<and> section_headings (fst (command_page deps cmd info)) =
       [''NAME:'', ''USAGE:'']
       @ (if CommandInfo.Alias info \<noteq> [] then [''ALIAS:''] else [])
       @ (if Flags info \<noteq> [] then [''OPTIONS:''] else [])
       @ (if Environment info \<noteq> [] then [''ENVIRONMENT:''] else [])
       @ (if RelatedCommands info \<noteq> [] then [''SEE ALSO:''] else [])
   \<and> blank_lines (fst (command_page deps cmd info)) =
       1 + (if CommandInfo.Alias info \<noteq> [] then 1 else 0)
         + (if Flags info \<noteq> [] then 1 else 0)
         + (if Environment info \<noteq> [] then 1 else 0)
         + (if RelatedCommands info \<noteq> [] then 1 else 0)
   \<and> (fst (alias_section info) = [] \<longleftrightarrow> CommandInfo.Alias info = [])
   \<and> (fst (options_section cmd info) = [] \<longleftrightarrow> Flags info = [])
   \<and> (fst (environment_section deps cmd info) = [] \<longleftrightarrow> Environment info = [])
   \<and> (fst (see_also_section info) = [] \<longleftrightarrow> RelatedCommands info = [])"
proof (intro conjI)
  show "snd (command_page deps cmd info) = Returns ()"
    by (simp add: command_page_eq)
  have h: "section_headings
             [DisplayText ''NAME:'' [],
              DisplayText (commandIndent @ ''{{.CommandName}} - {{.CommandDescription}}'')
                [(''CommandName'', CommandInfo.Name info),
                 (''CommandDescription'', TranslateText (UI cmd) (CommandInfo.Description info))],
              DisplayNewline,
              DisplayText ''USAGE:'' [],
              DisplayText (commandIndent @ ''{{.CommandUsage}}'')
                [(''CommandUsage'',
                    TranslateText (UI cmd)
                      (strings_Replace (Usage info) ''CF_NAME'' (BinaryName (Config cmd))))]]
           = [''NAME:'', ''USAGE:'']"
    by (simp add: section_headings_def page_headings_def)
  show "section_headings (fst (command_page deps cmd info)) =
       [''NAME:'', ''USAGE:'']
       @ (if CommandInfo.Alias info \<noteq> [] then [''ALIAS:''] else [])
       @ (if Flags info \<noteq> [] then [''OPTIONS:''] else [])
       @ (if Environment info \<noteq> [] then [''ENVIRONMENT:''] else [])
       @ (if RelatedCommands info \<noteq> [] then [''SEE ALSO:''] else [])"
    unfolding command_page_eq fst_conv section_headings_append h
      alias_section_obs options_section_obs environment_section_obs see_also_section_obs ..
  have b: "blank_lines
             [DisplayText ''NAME:'' [],
              DisplayText (commandIndent @ ''{{.CommandName}} - {{.CommandDescription}}'')
                [(''CommandName'', CommandInfo.Name info),
                 (''CommandDescription'', TranslateText (UI cmd) (CommandInfo.Description info))],
              DisplayNewline,
              DisplayText ''USAGE:'' [],
              DisplayText (commandIndent @ ''{{.CommandUsage}}'')
                [(''CommandUsage'',
                    TranslateText (UI cmd)
                      (strings_Replace (Usage info) ''CF_NAME'' (BinaryName (Config cmd))))]]
           = 1"
    by (simp add: blank_lines_def)
  show "blank_lines (fst (command_page deps cmd info)) =
       1 + (if CommandInfo.Alias info \<noteq> [] then 1 else 0)
         + (if Flags info \<noteq> [] then 1 else 0)
         + (if Environment info \<noteq> [] then 1 else 0)
         + (if RelatedCommands info \<noteq> [] then 1 else 0)"
    unfolding command_page_eq fst_conv blank_lines_append b
      alias_section_obs options_section_obs environment_section_obs see_also_section_obs
    by simp
qed (rule alias_section_obs options_section_obs environment_section_obs see_also_section_obs)+

theorem command_page_sections_witness:
  "command_page (example_deps []) (help_cmd (store_actor push_store) [] ''logs'' False) verbose_info =
     ([DisplayText ''NAME:'' [],
       DisplayText ''   {{.CommandName}} - {{.CommandDescription}}''
         [(''CommandName'', ''logs''), (''CommandDescription'', ''Show logs'')],
       DisplayNewline,
       DisplayText ''USAGE:'' [],
       DisplayText ''   {{.CommandUsage}}'' [(''CommandUsage'', ''cf logs'')],
       DisplayNewline,
       DisplayText ''OPTIONS:'' [],
       DisplayText ''   {{.Flags}}{{.Spaces}}{{.Description}}''
         [(''Flags'', ''--verbose, -v''), (''Spaces'', replicate 6 CHR '' ''),
          (''Description'', ''More output'')]], Returns ())
   \<and> section_headings
         (fst (command_page (example_deps []) (help_cmd (store_actor push_store) [] ''logs'' False)
                 verbose_info)) = [''NAME:'', ''USAGE:'', ''OPTIONS:'']
   \<and> blank_lines
         (fst (command_page (example_deps []) (help_cmd (store_actor push_store) [] ''logs'' False)
                 verbose_info)) = 2"
proof -
  have p: "command_page (example_deps []) (help_cmd (store_actor push_store) [] ''logs'' False) verbose_info =
     ([DisplayText ''NAME:'' [],
       DisplayText ''   {{.CommandName}} - {{.CommandDescription}}''
         [(''CommandName'', ''logs''), (''CommandDescription'', ''Show logs'')],
       DisplayNewline,
       DisplayText ''USAGE:'' [],
       DisplayText ''   {{.CommandUsage}}'' [(''CommandUsage'', ''cf logs'')],
       DisplayNewline,
       DisplayText ''OPTIONS:'' [],
       DisplayText ''   {{.Flags}}{{.Spaces}}{{.Description}}''
         [(''Flags'', ''--verbose, -v''), (''Spaces'', replicate 6 CHR '' ''),
          (''Description'', ''More output'')]], Returns ())"
    by (simp add: command_page_def alias_section_def options_section_def
        environment_section_def see_also_section_def flag_row_def flag_name_def
        LongestFlagWidth_def run_simps commandIndent_def help_cmd_def verbose_info_def Let_def)
  have f: "CommandInfo.Alias verbose_info = []" "Flags verbose_info \<noteq> []"
    "Environment verbose_info = []" "RelatedCommands verbose_info = []"
    by (simp_all add: verbose_info_def)
  from command_page_sections
    [of "example_deps []" "help_cmd (store_actor push_store) [] ''logs'' False" verbose_info] p
  show ?thesis by (simp add: f)
qed

subsection \<open>The full listing\<close>







text \<open>
  Claim C5, which the full listing does not meet. The catalog holds \<open>push\<close> only and
  the category row is \<open>push, scale\<close>. The full listing does not skip \<open>scale\<close>: it
  makes a \<^verbatim>\<open>DisplayText\<close> call for it with the empty name, the empty description and
  the gap of \<open>4 + 1 - 5\<close> spaces.
\<close>

theorem full_listing_renders_missing_command:
  "displayAllCommands (example_deps (apps_category [''push'', ''scale'']))
     (help_cmd (store_actor push_store) [] [] True) =
   ([DisplayHeader ''APPS:'',
     listing_text ''push'' ''Push a new app'' '' '',
     listing_text [] [] [],
     DisplayNewline,
     DisplayHeader ''INSTALLED PLUGIN COMMANDS:'',
     DisplayNewline], Returns ())"
  by (simp add: displayAllCommands_def run_simps example_deps_def apps_category_def help_cmd_def
      store_actor_def push_store_def builtin_def getSortedPluginCommands_def sort_Sort_def
      LongestCommandName_def referenced_identifiers_def cmdInfo_at_def CommandInfo_zero_def
      Let_def)

text \<open>
  The summary of common commands does skip: an identifier that is not in the catalog
  adds no entry to its row, and each other entry is the name, followed by a comma and
  the alias when there is one.
\<close>

lemma common_row_skips:
  "common_row cmdInfo row =
     concat (map (\<lambda>command. case map_of cmdInfo command of
                    None \<Rightarrow> []
                  | Some info \<Rightarrow>
                      [if CommandInfo.Alias info = [] then CommandInfo.Name info
                       else CommandInfo.Name info @ '','' @ CommandInfo.Alias info]) row)"
proof -
  have "fold (\<lambda>command finalRow.
             case map_of cmdInfo command of
               Some info \<Rightarrow>
                 (let separator = (if length (CommandInfo.Alias info) > 0 then '','' else '''')
                  in finalRow @ [CommandInfo.Name info @ separator @ CommandInfo.Alias info])
             | None \<Rightarrow> finalRow) row acc
        = acc @ concat (map (\<lambda>command. case map_of cmdInfo command of
                    None \<Rightarrow> []
                  | Some info \<Rightarrow>
                      [if CommandInfo.Alias info = [] then CommandInfo.Name info
                       else CommandInfo.Name info @ '','' @ CommandInfo.Alias info]) row)" for acc
    by (induction row arbitrary: acc) (auto split: option.splits)
  then show ?thesis by (simp add: common_row_def)
qed

text \<open>
  Claim C9, which the code does not meet. The catalog holds \<open>push\<close> only and the
  category row is \<open>push, restart\<close>. The width is 4, the count of spaces for \<open>restart\<close>
  is \<open>4 + 1 - 7\<close>, and \<^verbatim>\<open>strings.Repeat\<close> panics after the header and the row of
  \<open>push\<close> have been written.
\<close>

theorem full_listing_panics:
  "displayAllCommands (example_deps (apps_category [''push'', ''restart'']))
     (help_cmd (store_actor push_store) [] [] True) =
   ([DisplayHeader ''APPS:'', listing_text ''push'' ''Push a new app'' '' ''], Panics)"
  by (simp add: displayAllCommands_def run_simps example_deps_def apps_category_def help_cmd_def
      store_actor_def push_store_def builtin_def getSortedPluginCommands_def sort_Sort_def
      LongestCommandName_def referenced_identifiers_def cmdInfo_at_def CommandInfo_zero_def
      Let_def)

end
